theory Spec2Isabelle
  imports Complex_Main
begin

section \<open>Riemann surface visualizer: the sheet partition of \<open>plot_riemann\<close>\<close>

text \<open>
  A shallow embedding of \<^verbatim>\<open>riemann_surface_visualizer.py\<close>. The module has one function,
  \<^verbatim>\<open>plot_riemann\<close>, and a driver loop. Conventions of the embedding:

  \<^item> A finite double is read as the real number it denotes and arithmetic on finite doubles
    is exact real arithmetic: neither rounding nor the overflow of a product or sum beyond
    the largest double is modelled. The parameter \<^verbatim>\<open>theta_max\<close> is a finite double. The
    non-finite results that the code can produce (a numpy division by zero, the \<^verbatim>\<open>np.nan\<close>
    written by \<^verbatim>\<open>np.where\<close>) are values of their own in \<open>npfloat\<close>.
  \<^item> A Python \<^verbatim>\<open>int\<close> is an unbounded \<open>int\<close>. An entry of a numpy integer array is a signed
    64-bit integer, written as an \<open>int\<close> within that range: the cast \<^verbatim>\<open>astype(int)\<close> and the
    operations that take a Python integer into an array operation or into a float say what
    happens outside the range (numpy 2 on a 64-bit platform).
  \<^item> A Python \<^verbatim>\<open>str\<close> is the list of its code points, so that the root glyph U+221A is one
    element.
  \<^item> A two-dimensional numpy array is a list of rows.
  \<^item> An exception is a value \<open>Inl e\<close> of the result.
  \<^item> Local variables of \<^verbatim>\<open>plot_riemann\<close> are functions of the parameters they depend on;
    the one-letter arrays \<^verbatim>\<open>r, th, R, TH, X, Y, H\<close> carry a prefix (\<open>grid_r\<close>, \<open>grid_th\<close>,
    \<open>mesh_R\<close>, \<open>mesh_TH\<close>, \<open>mesh_X\<close>, \<open>mesh_Y\<close>, \<open>mesh_H\<close>).
  \<^item> Of the figure, the window title, the submitted surface patches (in drawing order), the
    title and the z limits are recorded; the constant view, tick and label settings are not.
\<close>

subsection \<open>Values\<close>

datatype error = ZeroDivisionError | OverflowError | ValueError

datatype npfloat = Finite real | PosInf | NegInf | NaN

type_synonym pystr = "nat list"

type_synonym 'a ndarray = "'a list list"

subsection \<open>The numpy and Python operations the module calls\<close>

text \<open>Elementwise operations on arrays of equal shape.\<close>

definition arr_map :: "('a \<Rightarrow> 'b) \<Rightarrow> 'a ndarray \<Rightarrow> 'b ndarray" where
  "arr_map f A = map (map f) A"

definition arr_map2 :: "('a \<Rightarrow> 'b \<Rightarrow> 'c) \<Rightarrow> 'a ndarray \<Rightarrow> 'b ndarray \<Rightarrow> 'c ndarray" where
  "arr_map2 f A B = map2 (map2 f) A B"

text \<open>
  \<^verbatim>\<open>np.linspace(start, stop, num)\<close>: \<open>num\<close> samples \<open>start + i * step\<close> with
  \<open>step = (stop - start) / (num - 1)\<close>, the last one overwritten by \<open>stop\<close>.
\<close>

definition linspace :: "real \<Rightarrow> real \<Rightarrow> nat \<Rightarrow> real list" where
  "linspace start stop num =
     (let step = (stop - start) / real (num - 1);
          y = map (\<lambda>i. real i * step + start) [0..<num]
      in if 1 < num then y[num - 1 := stop] else y)"

text \<open>
  \<^verbatim>\<open>np.meshgrid(xs, ys)\<close> with the default \<^verbatim>\<open>xy\<close> indexing: both results have one row per
  element of \<open>ys\<close> and one column per element of \<open>xs\<close>.
\<close>

definition meshgrid :: "real list \<Rightarrow> real list \<Rightarrow> real ndarray \<times> real ndarray" where
  "meshgrid xs ys = (map (\<lambda>y. xs) ys, map (\<lambda>y. map (\<lambda>x. y) xs) ys)"

text \<open>
  Array division by a Python integer: numpy does not raise on a zero divisor, it yields an
  infinity or NaN (and warns).
\<close>

definition np_true_divide :: "real \<Rightarrow> int \<Rightarrow> npfloat" where
  "np_true_divide x d =
     (if d \<noteq> 0 then Finite (x / real_of_int d)
      else if 0 < x then PosInf
      else if x < 0 then NegInf
      else NaN)"

definition np_add :: "npfloat \<Rightarrow> real \<Rightarrow> npfloat" where
  "np_add h c =
     (case h of Finite x \<Rightarrow> Finite (x + c) | PosInf \<Rightarrow> PosInf | NegInf \<Rightarrow> NegInf | NaN \<Rightarrow> NaN)"

text \<open>Floor division of floats; the only divisor in the module is \<open>2 * pi\<close>.\<close>

definition np_floor_divide :: "real \<Rightarrow> real \<Rightarrow> real" where
  "np_floor_divide x y = real_of_int \<lfloor>x / y\<rfloor>"

text \<open>The range of a signed 64-bit integer, the element type of \<^verbatim>\<open>astype(int)\<close>.\<close>

definition in_int64 :: "int \<Rightarrow> bool" where
  "in_int64 n = (- (2 ^ 63) \<le> n \<and> n < 2 ^ 63)"

text \<open>
  \<^verbatim>\<open>astype(int)\<close> truncates towards zero. It does not raise on a value outside the 64-bit
  range: the conversion instruction of x86-64 then yields the smallest 64-bit integer (and
  numpy warns).
\<close>

definition astype_int :: "real \<Rightarrow> int" where
  "astype_int x =
     (let t = (if 0 \<le> x then \<lfloor>x\<rfloor> else \<lceil>x\<rceil>)
      in if in_int64 t then t else - (2 ^ 63))"

text \<open>
  A Python integer that meets a float (\<^verbatim>\<open>2 * np.pi * order\<close>, \<^verbatim>\<open>TH / order\<close>,
  \<^verbatim>\<open>theta_max / order\<close>) is converted to a double, rounding to nearest; the conversion raises
  \<^verbatim>\<open>OverflowError\<close> when the rounded value is beyond the largest double.
\<close>

definition py_float_ok :: "int \<Rightarrow> bool" where
  "py_float_ok n = (\<bar>n\<bar> < 2 ^ 1024 - 2 ^ 970)"

text \<open>
  \<^verbatim>\<open>%\<close> on an integer array: the result has the sign of the divisor, and a zero divisor
  gives 0 (with a warning), not an exception.
\<close>

definition np_remainder :: "int \<Rightarrow> int \<Rightarrow> int" where
  "np_remainder a b = (if b = 0 then 0 else a mod b)"

definition np_where :: "bool \<Rightarrow> npfloat \<Rightarrow> npfloat" where
  "np_where c x = (if c then x else NaN)"

text \<open>\<^verbatim>\<open>np.log2\<close> of a Python integer, and Python's \<^verbatim>\<open>int()\<close> of the result.\<close>

definition np_log2 :: "int \<Rightarrow> npfloat" where
  "np_log2 n = (if 0 < n then Finite (log 2 (real_of_int n)) else if n = 0 then NegInf else NaN)"

definition py_int :: "npfloat \<Rightarrow> error + int" where
  "py_int x =
     (case x of
        Finite v \<Rightarrow> Inr (if 0 \<le> v then \<lfloor>v\<rfloor> else \<lceil>v\<rceil>)
      | PosInf \<Rightarrow> Inl OverflowError
      | NegInf \<Rightarrow> Inl OverflowError
      | NaN \<Rightarrow> Inl ValueError)"

text \<open>Strings: ASCII literals, \<^verbatim>\<open>str * int\<close>, and the decimal text of an integer.\<close>

definition ascii :: "string \<Rightarrow> pystr" where
  "ascii s = map of_char s"

definition str_mul :: "pystr \<Rightarrow> int \<Rightarrow> pystr" where
  "str_mul s n = concat (replicate (nat n) s)"

fun digits :: "nat \<Rightarrow> pystr" where
  "digits n = (if n < 10 then [48 + n] else digits (n div 10) @ [48 + n mod 10])"

declare digits.simps [simp del]

definition str_int :: "int \<Rightarrow> pystr" where
  "str_int i = (if i < 0 then 45 # digits (nat (- i)) else digits (nat i))"

subsection \<open>\<open>plot_riemann\<close>\<close>

record surface_patch =
  Xm :: "npfloat ndarray"
  Ym :: "npfloat ndarray"
  Hm :: "npfloat ndarray"

record figure =
  window_title :: pystr
  surfaces :: "surface_patch list"
  title :: pystr
  zlim :: "real \<times> real"

text \<open>Lines 33 to 36: the defaults of the optional parameters.\<close>

definition theta_max_of :: "int \<Rightarrow> real option \<Rightarrow> real" where
  "theta_max_of order theta_max =
     (case theta_max of None \<Rightarrow> 2 * pi * real_of_int order | Some t \<Rightarrow> t)"

definition sheets_of :: "int \<Rightarrow> int option \<Rightarrow> int" where
  "sheets_of order sheets = (case sheets of None \<Rightarrow> order | Some n \<Rightarrow> n)"

text \<open>Lines 39 to 41: the grid.\<close>

definition grid_r :: "real list" where
  "grid_r = linspace 0.15 2.0 160"

definition grid_th :: "real \<Rightarrow> real list" where
  "grid_th theta_max = linspace 0.0 theta_max 1600"

definition mesh_R :: "real \<Rightarrow> real ndarray" where
  "mesh_R theta_max = fst (meshgrid grid_r (grid_th theta_max))"

definition mesh_TH :: "real \<Rightarrow> real ndarray" where
  "mesh_TH theta_max = snd (meshgrid grid_r (grid_th theta_max))"

text \<open>Lines 44 to 46: Cartesian coordinates and height.\<close>

definition mesh_X :: "real \<Rightarrow> npfloat ndarray" where
  "mesh_X theta_max =
     arr_map Finite (arr_map2 (\<lambda>a b. a * b) (mesh_R theta_max) (arr_map cos (mesh_TH theta_max)))"

definition mesh_Y :: "real \<Rightarrow> npfloat ndarray" where
  "mesh_Y theta_max =
     arr_map Finite (arr_map2 (\<lambda>a b. a * b) (mesh_R theta_max) (arr_map sin (mesh_TH theta_max)))"

definition mesh_H :: "int \<Rightarrow> real \<Rightarrow> npfloat ndarray" where
  "mesh_H order theta_max = arr_map (\<lambda>t. np_true_divide t order) (mesh_TH theta_max)"

text \<open>
  Line 49: which sheet. The Python integer \<^verbatim>\<open>sheets\<close> is taken into the 64-bit array
  operation \<^verbatim>\<open>%\<close>, which raises \<^verbatim>\<open>OverflowError\<close> when it is outside the 64-bit range (the
  check is in \<open>plot_riemann\<close> below); otherwise the line computes this array.
\<close>

definition sheet_idx :: "int \<Rightarrow> real \<Rightarrow> int ndarray" where
  "sheet_idx sheets theta_max =
     arr_map (\<lambda>q. np_remainder q sheets)
       (arr_map astype_int
         (arr_map (\<lambda>t. np_floor_divide t (2 * pi)) (mesh_TH theta_max)))"

text \<open>Lines 57 to 67: the body of the loop over the sheets.\<close>

definition gap :: real where
  "gap = 1 / 1000"

definition lo :: "int \<Rightarrow> real" where
  "lo s = 2 * pi * real_of_int s + gap"

definition hi :: "int \<Rightarrow> real" where
  "hi s = 2 * pi * real_of_int (s + 1) - gap"

definition in_sheet :: "int \<Rightarrow> real \<Rightarrow> int \<Rightarrow> bool ndarray" where
  "in_sheet sheets theta_max s =
     arr_map2 (\<and>)
       (arr_map2 (\<and>)
         (arr_map (\<lambda>k. k = s) (sheet_idx sheets theta_max))
         (arr_map (\<lambda>t. lo s < t) (mesh_TH theta_max)))
       (arr_map (\<lambda>t. t < hi s) (mesh_TH theta_max))"

definition draw_sheet :: "int \<Rightarrow> real \<Rightarrow> int \<Rightarrow> int \<Rightarrow> surface_patch" where
  "draw_sheet order theta_max sheets s =
     \<lparr>Xm = arr_map2 np_where (in_sheet sheets theta_max s) (mesh_X theta_max),
      Ym = arr_map2 np_where (in_sheet sheets theta_max s) (mesh_Y theta_max),
      Hm = arr_map2 np_where (in_sheet sheets theta_max s)
             (arr_map (\<lambda>h. np_add h (0.03 * real_of_int s)) (mesh_H order theta_max))\<rparr>"

text \<open>
  The function. \<^verbatim>\<open>range(sheets - 1, -1, -1)\<close> is \<open>rev [0..sheets - 1]\<close>, empty when
  \<open>sheets \<le> 0\<close>. The calls into the plotting library are taken to succeed. The statements
  of the module that can raise are then, in the order of the source:
  \<^item> lines 34 and 46, which convert \<^verbatim>\<open>order\<close> to a double: \<^verbatim>\<open>OverflowError\<close> when it is too
    large for one;
  \<^item> line 49, which takes \<^verbatim>\<open>sheets\<close> into a 64-bit array operation: \<^verbatim>\<open>OverflowError\<close> when it
    is outside the 64-bit range;
  \<^item> line 83, where the Python float \<^verbatim>\<open>theta_max\<close> is divided by the Python integer
    \<^verbatim>\<open>order\<close>: \<^verbatim>\<open>ZeroDivisionError\<close> on a zero divisor. (The array division of line 46 and
    the array remainder of line 49 do not raise on a zero divisor.)
\<close>

definition plot_riemann :: "int \<Rightarrow> real option \<Rightarrow> int option \<Rightarrow> pystr \<Rightarrow> error + figure" where
  "plot_riemann order theta_max sheets ttl =
     (let theta_max = theta_max_of order theta_max;
          sheets = sheets_of order sheets;
          wt = ascii ''Riemann Surface Visualizer (order='' @ str_int order @ ascii '')'';
          drawn = map (draw_sheet order theta_max sheets) (rev [0..sheets - 1])
      in if \<not> py_float_ok order then Inl OverflowError
         else if \<not> in_int64 sheets then Inl OverflowError
         else if order = 0 then Inl ZeroDivisionError
         else Inr \<lparr>window_title = wt, surfaces = drawn, title = ttl,
                   zlim = (0, theta_max / real_of_int order + 0.1 * real_of_int (sheets - 1))\<rparr>)"

subsection \<open>The driver\<close>

definition root_glyph :: nat where
  "root_glyph = 8730"

text \<open>Lines 90 and 91: the title for one order.\<close>

definition root_sign :: "int \<Rightarrow> error + pystr" where
  "root_sign order =
     (case py_int (np_log2 order) of Inl e \<Rightarrow> Inl e | Inr k \<Rightarrow> Inr (str_mul [root_glyph] k))"

definition ttl_of :: "int \<Rightarrow> error + pystr" where
  "ttl_of order =
     (case root_sign order of
        Inl e \<Rightarrow> Inl e
      | Inr rs \<Rightarrow> Inr (ascii ''Riemann surface of '' @ rs @ ascii ''z ('' @ str_int order
                      @ ascii '' sheets)''))"

text \<open>
  The loop of the main block; the figures shown so far are the accumulator, and an
  exception ends the loop.
\<close>

fun main_loop :: "int list \<Rightarrow> figure list \<Rightarrow> error + figure list" where
  "main_loop [] shown = Inr shown"
| "main_loop (order # rest) shown =
     (case ttl_of order of
        Inl e \<Rightarrow> Inl e
      | Inr t \<Rightarrow>
          (case plot_riemann order None None t of
             Inl e \<Rightarrow> Inl e
           | Inr fig \<Rightarrow> main_loop rest (shown @ [fig])))"

definition main :: "error + figure list" where
  "main = main_loop [2, 4, 8, 16] []"

section \<open>Facts about the grid and the masked arrays\<close>

subsection \<open>Elementwise operations and the grid\<close>

lemma arr_map_length: "length (arr_map f A) = length A"
  by (simp add: arr_map_def)

lemma arr_map_row: "i < length A \<Longrightarrow> length (arr_map f A ! i) = length (A ! i)"
  by (simp add: arr_map_def)

lemma arr_map_nth: "i < length A \<Longrightarrow> j < length (A ! i) \<Longrightarrow> arr_map f A ! i ! j = f (A ! i ! j)"
  by (simp add: arr_map_def)

lemma arr_map2_length: "length (arr_map2 f A B) = min (length A) (length B)"
  by (simp add: arr_map2_def)

lemma arr_map2_row:
  "i < length A \<Longrightarrow> i < length B \<Longrightarrow> length (arr_map2 f A B ! i) = min (length (A ! i)) (length (B ! i))"
  by (simp add: arr_map2_def)

lemma arr_map2_nth:
  "i < length A \<Longrightarrow> i < length B \<Longrightarrow> j < length (A ! i) \<Longrightarrow> j < length (B ! i) \<Longrightarrow>
   arr_map2 f A B ! i ! j = f (A ! i ! j) (B ! i ! j)"
  by (simp add: arr_map2_def)

lemma linspace_length: "length (linspace a b n) = n"
  by (simp add: linspace_def Let_def)

lemma linspace_nth:
  "1 < n \<Longrightarrow> i < n \<Longrightarrow> linspace a b n ! i = a + real i * (b - a) / real (n - 1)"
  by (auto simp add: linspace_def Let_def nth_list_update field_simps)

lemma grid_th_length: "length (grid_th tm) = 1600"
  by (simp add: grid_th_def linspace_length)

lemma grid_th_nth: "i < 1600 \<Longrightarrow> grid_th tm ! i = real i * tm / 1599"
  by (simp add: grid_th_def linspace_nth)

lemma grid_r_length: "length grid_r = 160"
  by (simp add: grid_r_def linspace_length)

lemma grid_r_nth: "j < 160 \<Longrightarrow> grid_r ! j = 0.15 + real j * 1.85 / 159"
  by (simp add: grid_r_def linspace_nth)

lemma mesh_TH_length: "length (mesh_TH tm) = 1600"
  by (simp add: mesh_TH_def meshgrid_def grid_th_length)

lemma mesh_TH_row: "i < 1600 \<Longrightarrow> length (mesh_TH tm ! i) = 160"
  by (simp add: mesh_TH_def meshgrid_def grid_th_length grid_r_length)

lemma mesh_TH_nth: "i < 1600 \<Longrightarrow> j < 160 \<Longrightarrow> mesh_TH tm ! i ! j = grid_th tm ! i"
  by (simp add: mesh_TH_def meshgrid_def grid_th_length grid_r_length)

lemma mesh_R_length: "length (mesh_R tm) = 1600"
  by (simp add: mesh_R_def meshgrid_def grid_th_length)

lemma mesh_R_row: "i < 1600 \<Longrightarrow> length (mesh_R tm ! i) = 160"
  by (simp add: mesh_R_def meshgrid_def grid_th_length grid_r_length)

lemma mesh_R_nth: "i < 1600 \<Longrightarrow> j < 160 \<Longrightarrow> mesh_R tm ! i ! j = grid_r ! j"
  by (simp add: mesh_R_def meshgrid_def grid_th_length grid_r_length)

subsection \<open>Cells of the arrays of \<open>plot_riemann\<close>\<close>

lemma sheet_idx_nth:
  "i < 1600 \<Longrightarrow> j < 160 \<Longrightarrow>
   sheet_idx sheets tm ! i ! j =
     np_remainder (astype_int (np_floor_divide (grid_th tm ! i) (2 * pi))) sheets"
  by (simp add: sheet_idx_def arr_map_nth arr_map_length arr_map_row mesh_TH_length mesh_TH_row
      mesh_TH_nth)

lemma sheet_idx_length: "length (sheet_idx sheets tm) = 1600"
  by (simp add: sheet_idx_def arr_map_length mesh_TH_length)

lemma sheet_idx_row: "i < 1600 \<Longrightarrow> length (sheet_idx sheets tm ! i) = 160"
  by (simp add: sheet_idx_def arr_map_length arr_map_row mesh_TH_length mesh_TH_row)

lemma in_sheet_length: "length (in_sheet sheets tm s) = 1600"
  by (simp add: in_sheet_def arr_map2_length arr_map_length mesh_TH_length sheet_idx_length)

lemma in_sheet_row: "i < 1600 \<Longrightarrow> length (in_sheet sheets tm s ! i) = 160"
  by (simp add: in_sheet_def arr_map2_length arr_map2_row arr_map_length arr_map_row
      mesh_TH_length mesh_TH_row sheet_idx_length sheet_idx_row)

lemma in_sheet_nth:
  "i < 1600 \<Longrightarrow> j < 160 \<Longrightarrow>
   in_sheet sheets tm s ! i ! j =
     (sheet_idx sheets tm ! i ! j = s \<and> lo s < grid_th tm ! i \<and> grid_th tm ! i < hi s)"
  by (simp add: in_sheet_def arr_map2_nth arr_map2_length arr_map2_row arr_map_nth
      arr_map_length arr_map_row mesh_TH_length mesh_TH_row mesh_TH_nth sheet_idx_length
      sheet_idx_row)

lemma mesh_H_nth:
  "i < 1600 \<Longrightarrow> j < 160 \<Longrightarrow> mesh_H order tm ! i ! j = np_true_divide (grid_th tm ! i) order"
  by (simp add: mesh_H_def arr_map_nth mesh_TH_length mesh_TH_row mesh_TH_nth)

lemma mesh_X_nth:
  "i < 1600 \<Longrightarrow> j < 160 \<Longrightarrow> mesh_X tm ! i ! j = Finite (grid_r ! j * cos (grid_th tm ! i))"
  by (simp add: mesh_X_def arr_map_nth arr_map_length arr_map_row arr_map2_nth arr_map2_length
      arr_map2_row mesh_TH_length mesh_TH_row mesh_TH_nth mesh_R_length mesh_R_row mesh_R_nth)

lemma mesh_Y_nth:
  "i < 1600 \<Longrightarrow> j < 160 \<Longrightarrow> mesh_Y tm ! i ! j = Finite (grid_r ! j * sin (grid_th tm ! i))"
  by (simp add: mesh_Y_def arr_map_nth arr_map_length arr_map_row arr_map2_nth arr_map2_length
      arr_map2_row mesh_TH_length mesh_TH_row mesh_TH_nth mesh_R_length mesh_R_row mesh_R_nth)

lemma Xm_nth:
  "i < 1600 \<Longrightarrow> j < 160 \<Longrightarrow>
   Xm (draw_sheet order tm sheets s) ! i ! j =
     np_where (in_sheet sheets tm s ! i ! j) (Finite (grid_r ! j * cos (grid_th tm ! i)))"
  by (simp add: draw_sheet_def arr_map2_nth in_sheet_length in_sheet_row mesh_X_def
      arr_map_nth arr_map_length arr_map_row arr_map2_length
      arr_map2_row mesh_TH_length mesh_TH_row mesh_TH_nth mesh_R_length mesh_R_row mesh_R_nth)

lemma Ym_nth:
  "i < 1600 \<Longrightarrow> j < 160 \<Longrightarrow>
   Ym (draw_sheet order tm sheets s) ! i ! j =
     np_where (in_sheet sheets tm s ! i ! j) (Finite (grid_r ! j * sin (grid_th tm ! i)))"
  by (simp add: draw_sheet_def arr_map2_nth in_sheet_length in_sheet_row mesh_Y_def
      arr_map_nth arr_map_length arr_map_row arr_map2_length
      arr_map2_row mesh_TH_length mesh_TH_row mesh_TH_nth mesh_R_length mesh_R_row mesh_R_nth)

lemma Hm_nth:
  "i < 1600 \<Longrightarrow> j < 160 \<Longrightarrow>
   Hm (draw_sheet order tm sheets s) ! i ! j =
     np_where (in_sheet sheets tm s ! i ! j)
       (np_add (np_true_divide (grid_th tm ! i) order) (0.03 * real_of_int s))"
  by (simp add: draw_sheet_def arr_map2_nth in_sheet_length in_sheet_row mesh_H_def
      arr_map_nth arr_map_length arr_map_row mesh_TH_length mesh_TH_row mesh_TH_nth)

lemmas range_defs = in_int64_def py_float_ok_def

lemma in_int64_float_ok: "in_int64 n \<Longrightarrow> py_float_ok n"
  by (auto simp add: in_int64_def py_float_ok_def abs_less_iff)

lemma plot_riemann_Inr:
  "py_float_ok order \<Longrightarrow> in_int64 (sheets_of order sho) \<Longrightarrow> order \<noteq> 0 \<Longrightarrow>
   plot_riemann order tmo sho t =
     Inr \<lparr>window_title = ascii ''Riemann Surface Visualizer (order='' @ str_int order @ ascii '')'',
          surfaces = map (draw_sheet order (theta_max_of order tmo) (sheets_of order sho))
                       (rev [0..sheets_of order sho - 1]),
          title = t,
          zlim = (0, theta_max_of order tmo / real_of_int order
                       + 0.1 * real_of_int (sheets_of order sho - 1))\<rparr>"
  by (simp add: plot_riemann_def Let_def)

lemma plot_riemann_Inl:
  "in_int64 (sheets_of 0 sho) \<Longrightarrow> plot_riemann 0 tmo sho t = Inl ZeroDivisionError"
  by (simp add: plot_riemann_def Let_def py_float_ok_def)

lemma plot_riemann_returns:
  assumes "plot_riemann order tmo sho t = Inr fig"
  shows "py_float_ok order" and "in_int64 (sheets_of order sho)" and "order \<noteq> 0"
  using assms by (auto simp add: plot_riemann_def Let_def split: if_splits)

lemma plot_riemann_fig:
  assumes "plot_riemann order tmo sho t = Inr fig"
  shows "fig =
     \<lparr>window_title = ascii ''Riemann Surface Visualizer (order='' @ str_int order @ ascii '')'',
      surfaces = map (draw_sheet order (theta_max_of order tmo) (sheets_of order sho))
                   (rev [0..sheets_of order sho - 1]),
      title = t,
      zlim = (0, theta_max_of order tmo / real_of_int order
                   + 0.1 * real_of_int (sheets_of order sho - 1))\<rparr>"
  using assms plot_riemann_Inr [OF plot_riemann_returns [OF assms], of tmo t] by simp

lemma patch_cases:
  assumes "plot_riemann order tmo sho t = Inr fig" and "p \<in> set (surfaces fig)"
  obtains s where "0 \<le> s" and "s < sheets_of order sho"
    and "p = draw_sheet order (theta_max_of order tmo) (sheets_of order sho) s"
  using assms(2) that unfolding plot_riemann_fig [OF assms(1)] by auto

lemma band_gap_low: "k \<le> s \<Longrightarrow> lo s < x \<Longrightarrow> gap < x - 2 * pi * real_of_int k"
proof -
  assume a: "k \<le> s" and b: "lo s < x"
  have "2 * pi * real_of_int k \<le> 2 * pi * real_of_int s"
    using a by (intro mult_left_mono) simp_all
  with b show ?thesis unfolding lo_def by linarith
qed

lemma band_gap_high: "s + 1 \<le> k \<Longrightarrow> x < hi s \<Longrightarrow> gap < 2 * pi * real_of_int k - x"
proof -
  assume a: "s + 1 \<le> k" and b: "x < hi s"
  have "real_of_int (s + 1) \<le> real_of_int k"
    using a by linarith
  then have "2 * pi * real_of_int (s + 1) \<le> 2 * pi * real_of_int k"
    by (intro mult_left_mono) simp_all
  with b show ?thesis unfolding hi_def by linarith
qed

lemma band_excludes_boundary:
  assumes "lo s < x" and "x < hi s"
  shows "gap < \<bar>x - 2 * pi * real_of_int k\<bar>"
proof (cases "k \<le> s")
  case True
  from band_gap_low [OF True assms(1)] show ?thesis by linarith
next
  case False
  then have "s + 1 \<le> k" by simp
  from band_gap_high [OF this assms(2)] show ?thesis by linarith
qed

lemma bands_disjoint:
  assumes "s1 \<noteq> s2" shows "\<not> (lo s1 < x \<and> x < hi s1 \<and> lo s2 < x \<and> x < hi s2)"
proof
  assume h: "lo s1 < x \<and> x < hi s1 \<and> lo s2 < x \<and> x < hi s2"
  have gp: "0 < gap" by (simp add: gap_def)
  show False
  proof (cases "s1 < s2")
    case True
    then have "s1 + 1 \<le> s2" by simp
    from band_gap_high [OF this, of x] h have "gap < 2 * pi * real_of_int s2 - x" by simp
    moreover from h have "2 * pi * real_of_int s2 + gap < x" by (simp add: lo_def)
    ultimately show False using gp by linarith
  next
    case False
    with assms have "s2 + 1 \<le> s1" by simp
    from band_gap_high [OF this, of x] h have "gap < 2 * pi * real_of_int s1 - x" by simp
    moreover from h have "2 * pi * real_of_int s1 + gap < x" by (simp add: lo_def)
    ultimately show False using gp by linarith
  qed
qed

lemma masked_out:
  assumes "i < 1600" and "j < 160" and "\<not> in_sheet sheets tm s ! i ! j"
  shows "Xm (draw_sheet order tm sheets s) ! i ! j = NaN
       \<and> Ym (draw_sheet order tm sheets s) ! i ! j = NaN
       \<and> Hm (draw_sheet order tm sheets s) ! i ! j = NaN"
  using assms by (simp add: Xm_nth Ym_nth Hm_nth np_where_def)

lemma grid_th_bounds:
  assumes "x \<in> set (grid_th tm)" shows "min 0 tm \<le> x \<and> x \<le> max 0 tm"
proof -
  from assms obtain i where i: "i < 1600" and x: "x = grid_th tm ! i"
    by (auto simp add: in_set_conv_nth grid_th_length)
  define c where "c = real i / 1599"
  have c: "0 \<le> c" "c \<le> 1" using i by (simp_all add: c_def)
  have xc: "x = c * tm" using i by (simp add: x grid_th_nth c_def)
  show ?thesis
  proof (cases "0 \<le> tm")
    case True
    from c(1) True have "0 \<le> c * tm"
      by (rule mult_nonneg_nonneg)
    moreover from c(2) True have "c * tm \<le> 1 * tm"
      by (rule mult_right_mono)
    ultimately show ?thesis using True by (simp add: xc)
  next
    case False
    then have neg: "tm \<le> 0" by simp
    from c(1) neg have "c * tm \<le> 0"
      by (rule mult_nonneg_nonpos)
    moreover from c(2) neg have "1 * tm \<le> c * tm"
      by (rule mult_right_mono_neg)
    ultimately show ?thesis using neg by (simp add: xc)
  qed
qed

lemma surfaces_default_3:
  "surfaces (projr (plot_riemann 3 None None [])) =
     [draw_sheet 3 (theta_max_of 3 None) 3 2, draw_sheet 3 (theta_max_of 3 None) 3 1,
      draw_sheet 3 (theta_max_of 3 None) 3 0]"
  by (simp add: plot_riemann_Inr range_defs sheets_of_def upto.simps)

subsection \<open>The titles and the loop of the driver\<close>

lemma log2_pow: "log 2 (2 ^ k) = real k"
  by (simp add: log_nat_power)

lemma np_log2_vals:
  "np_log2 2 = Finite 1" "np_log2 4 = Finite 2" "np_log2 8 = Finite 3" "np_log2 16 = Finite 4"
  using log2_pow [of 1] log2_pow [of 2] log2_pow [of 3] log2_pow [of 4]
  by (simp_all add: np_log2_def)

lemma root_sign_vals:
  "root_sign 2 = Inr [root_glyph]"
  "root_sign 4 = Inr [root_glyph, root_glyph]"
  "root_sign 8 = Inr [root_glyph, root_glyph, root_glyph]"
  "root_sign 16 = Inr [root_glyph, root_glyph, root_glyph, root_glyph]"
  by (simp_all add: root_sign_def np_log2_vals py_int_def str_mul_def numeral_eq_Suc)

lemma str_int_vals:
  "str_int 2 = ascii ''2''" "str_int 4 = ascii ''4''" "str_int 8 = ascii ''8''"
  "str_int 16 = ascii ''16''"
  by (simp_all add: str_int_def digits.simps ascii_def)

lemma ttl_of_vals:
  "ttl_of 2 = Inr (ascii ''Riemann surface of '' @ [root_glyph] @ ascii ''z (2 sheets)'')"
  "ttl_of 4 = Inr (ascii ''Riemann surface of '' @ [root_glyph, root_glyph]
                     @ ascii ''z (4 sheets)'')"
  "ttl_of 8 = Inr (ascii ''Riemann surface of '' @ [root_glyph, root_glyph, root_glyph]
                     @ ascii ''z (8 sheets)'')"
  "ttl_of 16 = Inr (ascii ''Riemann surface of ''
                     @ [root_glyph, root_glyph, root_glyph, root_glyph]
                     @ ascii ''z (16 sheets)'')"
  by (simp_all add: ttl_of_def root_sign_vals str_int_vals ascii_def)

lemma main_loop_step:
  "in_int64 order \<Longrightarrow> order \<noteq> 0 \<Longrightarrow> ttl_of order = Inr t \<Longrightarrow>
   main_loop (order # rest) shown
     = main_loop rest (shown @ [projr (plot_riemann order None None t)])"
  by (simp add: plot_riemann_Inr in_int64_float_ok sheets_of_def)

lemma shown_fields:
  "in_int64 order \<Longrightarrow> order \<noteq> 0 \<Longrightarrow>
   window_title (projr (plot_riemann order None None t))
     = ascii ''Riemann Surface Visualizer (order='' @ str_int order @ ascii '')''
   \<and> title (projr (plot_riemann order None None t)) = t
   \<and> length (surfaces (projr (plot_riemann order None None t))) = nat order"
  by (simp add: plot_riemann_Inr in_int64_float_ok sheets_of_def)

lemma main_shown:
  "main = Inr [projr (plot_riemann 2 None None (projr (ttl_of 2))),
               projr (plot_riemann 4 None None (projr (ttl_of 4))),
               projr (plot_riemann 8 None None (projr (ttl_of 8))),
               projr (plot_riemann 16 None None (projr (ttl_of 16)))]"
proof -
  let ?f = "\<lambda>n. projr (plot_riemann n None None (projr (ttl_of n)))"
  have "main_loop [2, 4, 8, 16] [] = main_loop [4, 8, 16] ([] @ [?f 2])"
    by (rule main_loop_step) (simp_all add: ttl_of_vals in_int64_def)
  also have "\<dots> = main_loop [8, 16] (([] @ [?f 2]) @ [?f 4])"
    by (rule main_loop_step) (simp_all add: ttl_of_vals in_int64_def)
  also have "\<dots> = main_loop [16] ((([] @ [?f 2]) @ [?f 4]) @ [?f 8])"
    by (rule main_loop_step) (simp_all add: ttl_of_vals in_int64_def)
  also have "\<dots> = main_loop [] (((([] @ [?f 2]) @ [?f 4]) @ [?f 8]) @ [?f 16])"
    by (rule main_loop_step) (simp_all add: ttl_of_vals in_int64_def)
  finally show ?thesis
    by (simp add: main_def)
qed

section \<open>The claims\<close>

text \<open>
  Claim C1, as the code has it. \<open>plot_riemann\<close> checks neither \<open>order\<close> nor \<open>sheets\<close>. With
  both in the signed 64-bit range, a call with \<open>order = 0\<close> ends in \<^verbatim>\<open>ZeroDivisionError\<close>,
  and a call with any other order, negative ones included, raises nothing and returns a
  figure with \<open>sheets\<close> patches, none when \<open>sheets \<le> 0\<close>. The claim itself (a non-positive
  order or sheet count is rejected at once with an error naming the parameter) fails at
  \<open>order = -1\<close>, where the call returns a figure.
\<close>

theorem no_validation:
  assumes "in_int64 order" and "in_int64 (sheets_of order sho)"
  shows "(order = 0 \<longrightarrow> plot_riemann order tmo sho t = Inl ZeroDivisionError)
       \<and> (order \<noteq> 0 \<longrightarrow>
            (\<exists>fig. plot_riemann order tmo sho t = Inr fig
               \<and> length (surfaces fig) = nat (sheets_of order sho)))"
  using assms by (auto simp add: plot_riemann_Inl plot_riemann_Inr in_int64_float_ok)

theorem no_validation_witness:
  "in_int64 0 \<and> in_int64 1 \<and> in_int64 (- 3)
   \<and> plot_riemann 0 None None [] = Inl ZeroDivisionError
   \<and> plot_riemann 0 (Some 1) (Some (- 3)) [] = Inl ZeroDivisionError
   \<and> \<not> isl (plot_riemann 1 None (Some (- 3)) [])
   \<and> surfaces (projr (plot_riemann 1 None (Some (- 3)) [])) = []"
proof -
  have r: "in_int64 0" "in_int64 1" "in_int64 (- 3)"
    by (simp_all add: in_int64_def)
  from no_validation [of 0 None None "[]"] no_validation [of 0 "Some (- 3)" "Some 1" "[]"]
    no_validation [of 1 "Some (- 3)" None "[]"] r
  show ?thesis by (auto simp add: sheets_of_def)
qed

theorem no_validation_counterexample:
  "plot_riemann (- 1) None None []
     = Inr \<lparr>window_title = ascii ''Riemann Surface Visualizer (order=-1)'', surfaces = [],
            title = [], zlim = (0, 2 * pi - 0.2)\<rparr>"
  by (simp add: plot_riemann_Inr range_defs theta_max_of_def sheets_of_def str_int_def
      ascii_def digits.simps)




text \<open>
  Claim C3. For two distinct sheets, no mesh cell is in the mask \<open>in_sheet\<close> of both, and
  no angle at all lies strictly inside the gap-trimmed band \<open>(lo s, hi s)\<close> of both.
\<close>

theorem sheets_not_overlapping:
  assumes "s1 \<noteq> s2" and "i < 1600" and "j < 160"
  shows "\<not> (in_sheet sheets tm s1 ! i ! j \<and> in_sheet sheets tm s2 ! i ! j)
       \<and> \<not> (lo s1 < x \<and> x < hi s1 \<and> lo s2 < x \<and> x < hi s2)"
  using assms bands_disjoint [of s1 s2 x] by (simp add: in_sheet_nth)

theorem sheets_not_overlapping_witness:
  "(0::int) \<noteq> 1 \<and> in_sheet 2 (4 * pi) 0 ! 400 ! 0 \<and> \<not> in_sheet 2 (4 * pi) 1 ! 400 ! 0"
proof -
  have "in_sheet 2 (4 * pi) 0 ! 400 ! 0"
    using pi_ge_two by (simp add: in_sheet_nth sheet_idx_nth grid_th_nth np_remainder_def
        astype_int_def in_int64_def np_floor_divide_def lo_def hi_def gap_def)
  with sheets_not_overlapping [of 0 1 400 0 2 "4 * pi" 0] show ?thesis
    by simp
qed

text \<open>
  Claim C4. A mesh cell whose angle is within \<open>gap\<close> of a multiple of \<open>2\<pi>\<close> is NaN in the
  three arrays of every patch that the call draws.
\<close>

theorem boundary_excluded:
  assumes "plot_riemann order tmo sho t = Inr fig" and "p \<in> set (surfaces fig)"
    and "i < 1600" and "j < 160"
    and "\<bar>grid_th (theta_max_of order tmo) ! i - 2 * pi * real_of_int k\<bar> \<le> gap"
  shows "Xm p ! i ! j = NaN \<and> Ym p ! i ! j = NaN \<and> Hm p ! i ! j = NaN"
proof -
  from assms(1,2) obtain s
    where p: "p = draw_sheet order (theta_max_of order tmo) (sheets_of order sho) s"
    by (rule patch_cases)
  have "\<not> in_sheet (sheets_of order sho) (theta_max_of order tmo) s ! i ! j"
    using band_excludes_boundary [of s "grid_th (theta_max_of order tmo) ! i" k] assms(3,4,5)
    by (auto simp add: in_sheet_nth)
  with assms(3,4) show ?thesis
    unfolding p by (rule masked_out)
qed

theorem boundary_excluded_witness:
  "\<not> isl (plot_riemann 3 None None [])
   \<and> \<bar>grid_th (theta_max_of 3 None) ! 533 - 2 * pi * real_of_int 1\<bar> \<le> gap
   \<and> Hm (surfaces (projr (plot_riemann 3 None None [])) ! 1) ! 533 ! 0 = NaN
   \<and> Hm (surfaces (projr (plot_riemann 3 None None [])) ! 2) ! 533 ! 0 = NaN"
proof -
  let ?fig = "projr (plot_riemann 3 None None [])"
  have f: "plot_riemann 3 None None [] = Inr ?fig"
    by (simp add: plot_riemann_Inr range_defs sheets_of_def)
  have g: "\<bar>grid_th (theta_max_of 3 None) ! 533 - 2 * pi * real_of_int 1\<bar> \<le> gap"
    by (simp add: grid_th_nth theta_max_of_def gap_def)
  have m1: "surfaces ?fig ! 1 \<in> set (surfaces ?fig)"
    by (simp add: surfaces_default_3)
  have m2: "surfaces ?fig ! 2 \<in> set (surfaces ?fig)"
    by (simp add: surfaces_default_3)
  have r: "\<not> isl (plot_riemann 3 None None [])"
    by (simp add: plot_riemann_Inr range_defs sheets_of_def)
  from boundary_excluded [OF f m1 _ _ g, of 0] boundary_excluded [OF f m2 _ _ g, of 0] g r
  show ?thesis by simp
qed

text \<open>
  Claim C5. Without \<open>theta_max\<close> the sweep ends at \<open>2\<pi> * order\<close>, with it at the value
  passed; without \<open>sheets\<close> the sheet count is \<open>order\<close>, with it the value passed (a call
  without both is the call with the two defaults passed). The patches of a call that
  returns are drawn on the grid of this sweep, one for each sheet. The 1600 angle samples
  start at 0, end at \<open>theta_max\<close> and all lie between 0 and \<open>theta_max\<close>.
\<close>

theorem defaults_and_span:
  "theta_max_of order None = 2 * pi * real_of_int order
   \<and> theta_max_of order (Some tm) = tm
   \<and> sheets_of order None = order
   \<and> sheets_of order (Some n) = n
   \<and> plot_riemann order None None t
       = plot_riemann order (Some (2 * pi * real_of_int order)) (Some order) t
   \<and> (plot_riemann order tmo sho t = Inr fig \<longrightarrow>
        surfaces fig = map (draw_sheet order (theta_max_of order tmo) (sheets_of order sho))
                         (rev [0..sheets_of order sho - 1]))
   \<and> length (grid_th (theta_max_of order tmo)) = 1600
   \<and> hd (grid_th (theta_max_of order tmo)) = 0
   \<and> last (grid_th (theta_max_of order tmo)) = theta_max_of order tmo
   \<and> last (grid_th (theta_max_of order None)) = 2 * pi * real_of_int order
   \<and> last (grid_th (theta_max_of order (Some tm))) = tm
   \<and> (\<forall>x \<in> set (grid_th (theta_max_of order tmo)).
         min 0 (theta_max_of order tmo) \<le> x \<and> x \<le> max 0 (theta_max_of order tmo))"
proof -
  have ne: "grid_th u \<noteq> []" for u
    using grid_th_length [of u] by auto
  have h: "hd (grid_th u) = 0" for u
    using ne [of u] by (simp add: hd_conv_nth grid_th_nth)
  have l: "last (grid_th u) = u" for u
    using ne [of u] by (simp add: last_conv_nth grid_th_length grid_th_nth)
  have d: "theta_max_of order None = 2 * pi * real_of_int order"
    "theta_max_of order (Some tm) = tm" "sheets_of order None = order"
    "sheets_of order (Some n) = n"
    by (simp_all add: theta_max_of_def sheets_of_def)
  have e: "plot_riemann order None None t
       = plot_riemann order (Some (2 * pi * real_of_int order)) (Some order) t"
    by (simp add: plot_riemann_def theta_max_of_def sheets_of_def)
  have f: "plot_riemann order tmo sho t = Inr fig \<longrightarrow>
        surfaces fig = map (draw_sheet order (theta_max_of order tmo) (sheets_of order sho))
                         (rev [0..sheets_of order sho - 1])"
  proof
    assume "plot_riemann order tmo sho t = Inr fig"
    from plot_riemann_fig [OF this] show "surfaces fig =
        map (draw_sheet order (theta_max_of order tmo) (sheets_of order sho))
          (rev [0..sheets_of order sho - 1])"
      by simp
  qed
  have b: "\<forall>x \<in> set (grid_th (theta_max_of order tmo)).
         min 0 (theta_max_of order tmo) \<le> x \<and> x \<le> max 0 (theta_max_of order tmo)"
    using grid_th_bounds [of _ "theta_max_of order tmo"] by blast
  from d e f b show ?thesis
    by (simp add: h l grid_th_length)
qed

theorem defaults_and_span_witness:
  "theta_max_of 2 None = 4 * pi \<and> theta_max_of 2 (Some 10) = 10
   \<and> sheets_of 2 None = 2 \<and> sheets_of 2 (Some 7) = 7
   \<and> \<not> isl (plot_riemann 2 (Some 10) (Some 7) [])
   \<and> length (surfaces (projr (plot_riemann 2 (Some 10) (Some 7) []))) = 7
   \<and> length (surfaces (projr (plot_riemann 2 None None []))) = 2
   \<and> hd (grid_th (4 * pi)) = 0 \<and> last (grid_th (4 * pi)) = 4 * pi
   \<and> last (grid_th (theta_max_of 2 (Some 10))) = 10
   \<and> grid_th (4 * pi) ! 800 \<in> set (grid_th (4 * pi))
   \<and> 0 \<le> grid_th (4 * pi) ! 800 \<and> grid_th (4 * pi) ! 800 \<le> 4 * pi"
proof -
  let ?f = "projr (plot_riemann 2 (Some 10) (Some 7) [])"
  let ?g = "projr (plot_riemann 2 None None [])"
  have m: "grid_th (4 * pi) ! 800 \<in> set (grid_th (4 * pi))"
    by (simp add: grid_th_length)
  have e: "theta_max_of 2 None = 4 * pi"
    by (simp add: theta_max_of_def)
  have f: "plot_riemann 2 (Some 10) (Some 7) [] = Inr ?f"
    by (simp add: plot_riemann_Inr range_defs sheets_of_def)
  have g: "plot_riemann 2 None None [] = Inr ?g"
    by (simp add: plot_riemann_Inr range_defs sheets_of_def)
  have r: "\<not> isl (plot_riemann 2 (Some 10) (Some 7) [])"
    by (simp add: plot_riemann_Inr range_defs sheets_of_def)
  from defaults_and_span [of 2 10 7 "[]" "Some 10" "Some 7" ?f] f
  have a: "theta_max_of 2 (Some 10) = 10" "sheets_of 2 (Some 7) = 7"
    "length (surfaces ?f) = 7" "last (grid_th (theta_max_of 2 (Some 10))) = 10"
    by (simp_all add: theta_max_of_def sheets_of_def)
  from defaults_and_span [of 2 10 7 "[]" None None ?g] g
  have "surfaces ?g = map (draw_sheet 2 (theta_max_of 2 None) (sheets_of 2 None))
                         (rev [0..sheets_of 2 None - 1])"
    by blast
  then have c: "length (surfaces ?g) = 2"
    by (simp add: sheets_of_def)
  from defaults_and_span [of 2 10 7 "[]" None None ?g] m
  have b: "sheets_of 2 None = 2"
    "hd (grid_th (4 * pi)) = 0" "last (grid_th (4 * pi)) = 4 * pi"
    "0 \<le> grid_th (4 * pi) ! 800" "grid_th (4 * pi) ! 800 \<le> 4 * pi"
    unfolding e by auto
  from a b c e m r show ?thesis by simp
qed

text \<open>
  Claim C6. For a positive order the height of a mesh cell is its angle divided by the
  order, and a cell with a smaller angle has a height that is not larger.
\<close>

theorem height_monotone:
  assumes "0 < order" and "i1 < 1600" and "i2 < 1600" and "j1 < 160" and "j2 < 160"
    and "grid_th tm ! i1 < grid_th tm ! i2"
  shows "mesh_H order tm ! i1 ! j1 = Finite (grid_th tm ! i1 / real_of_int order)
       \<and> mesh_H order tm ! i2 ! j2 = Finite (grid_th tm ! i2 / real_of_int order)
       \<and> grid_th tm ! i1 / real_of_int order \<le> grid_th tm ! i2 / real_of_int order"
  using assms by (simp add: mesh_H_nth np_true_divide_def divide_right_mono)

theorem height_monotone_witness:
  "grid_th 10 ! 0 < grid_th 10 ! 1599
   \<and> mesh_H 2 10 ! 0 ! 0 = Finite 0 \<and> mesh_H 2 10 ! 1599 ! 159 = Finite 5"
  using height_monotone [of 2 0 1599 0 159 10]
  by (simp add: grid_th_nth)




text \<open>
  Claim C8, as the code has it. In a call that returns (with \<open>order\<close> in the signed 64-bit
  range), the z axis runs from 0 to \<open>theta_max / order + 0.1 * (sheets - 1)\<close>: the headroom
  per sheet is 0.1, not the drawing offset 0.03. For a positive order every height \<open>h\<close>
  drawn in a patch satisfies
  \<open>0 \<le> h \<le> theta_max / order + 0.03 * (sheets - 1)\<close>, which is at most the upper limit, so
  that the limits span every drawn height. The claim itself (the upper limit equals the
  largest base height plus the offset \<open>0.03 * (sheets - 1)\<close> of the top sheet) fails for
  \<open>order = 2\<close>.
\<close>

theorem zlim_upper:
  assumes "plot_riemann order tmo sho t = Inr fig" and "in_int64 order"
  shows "zlim fig = (0, theta_max_of order tmo / real_of_int order
                        + 0.1 * real_of_int (sheets_of order sho - 1))
       \<and> (0 < order \<longrightarrow>
            (\<forall>p \<in> set (surfaces fig). \<forall>i < 1600. \<forall>j < 160. \<forall>h.
               Hm p ! i ! j = Finite h \<longrightarrow>
                 0 \<le> h
                 \<and> h \<le> theta_max_of order tmo / real_of_int order
                         + 0.03 * real_of_int (sheets_of order sho - 1)
                 \<and> h \<le> snd (zlim fig)))"
proof -
  let ?tm = "theta_max_of order tmo" and ?sh = "sheets_of order sho"
  have z: "zlim fig = (0, ?tm / real_of_int order + 0.1 * real_of_int (?sh - 1))"
    using plot_riemann_fig [OF assms(1)] by simp
  have "0 \<le> h \<and> h \<le> ?tm / real_of_int order + 0.03 * real_of_int (?sh - 1)
        \<and> h \<le> snd (zlim fig)"
    if pos: "0 < order" and p: "p \<in> set (surfaces fig)" and i: "i < 1600" and j: "j < 160"
      and h: "Hm p ! i ! j = Finite h" for p i j h
  proof -
    let ?a = "grid_th ?tm ! i"
    from assms(1) p obtain s
      where s: "0 \<le> s" "s < ?sh" and pd: "p = draw_sheet order ?tm ?sh s"
      by (rule patch_cases)
    from h have m: "in_sheet ?sh ?tm s ! i ! j"
      unfolding pd using i j by (simp add: Hm_nth np_where_def split: if_splits)
    with h pos have hv: "h = ?a / real_of_int order + 0.03 * real_of_int s"
      unfolding pd using i j
      by (simp add: Hm_nth np_where_def np_true_divide_def np_add_def)
    from m i j have "lo s < ?a" by (simp add: in_sheet_nth)
    moreover have "0 \<le> 2 * pi * real_of_int s" using s(1) by simp
    ultimately have a0: "0 < ?a" by (simp add: lo_def gap_def)
    have "?a \<in> set (grid_th ?tm)" using i by (simp add: grid_th_length)
    from grid_th_bounds [OF this] a0 have atm: "?a \<le> ?tm" by linarith
    from pos have op: "0 < real_of_int order" by simp
    have b1: "?a / real_of_int order \<le> ?tm / real_of_int order"
      using atm op by (simp add: divide_right_mono)
    have b0: "0 \<le> ?a / real_of_int order"
      using a0 op by simp
    define S where "S = real_of_int s"
    define T where "T = real_of_int (?sh - 1)"
    from s have sr: "0 \<le> S" "S \<le> T"
      by (simp_all add: S_def T_def)
    have zs: "snd (zlim fig) = ?tm / real_of_int order + 0.1 * T"
      by (simp add: z T_def)
    have hs: "h = ?a / real_of_int order + 0.03 * S"
      by (simp add: hv S_def)
    have "0 \<le> h"
      using b0 sr(1) by (simp add: hs)
    moreover have "h \<le> ?tm / real_of_int order + 0.03 * T"
      using b1 sr(2) by (simp add: hs add_mono)
    moreover have "0.03 * T \<le> 0.1 * T"
      using sr by simp
    ultimately show ?thesis
      unfolding zs T_def by (intro conjI) linarith+
  qed
  with z show ?thesis by blast
qed

theorem zlim_upper_witness:
  "plot_riemann 2 None None [] = Inr (projr (plot_riemann 2 None None []))
   \<and> in_int64 2
   \<and> zlim (projr (plot_riemann 2 None None [])) = (0, 2 * pi + 0.1)
   \<and> surfaces (projr (plot_riemann 2 None None [])) ! 0
       \<in> set (surfaces (projr (plot_riemann 2 None None [])))
   \<and> Hm (surfaces (projr (plot_riemann 2 None None [])) ! 0) ! 1200 ! 0
       = Finite (2400 * pi / 1599 + 0.03)
   \<and> 0 \<le> 2400 * pi / 1599 + (0.03 :: real)
   \<and> 2400 * pi / 1599 + 0.03 \<le> 2 * pi + (0.03 :: real)
   \<and> 2400 * pi / 1599 + 0.03 \<le> 2 * pi + (0.1 :: real)"
proof -
  let ?f = "projr (plot_riemann 2 None None [])"
  have f: "plot_riemann 2 None None [] = Inr ?f"
    by (simp add: plot_riemann_Inr range_defs sheets_of_def)
  have s: "surfaces ?f = map (draw_sheet 2 (4 * pi) 2) [1, 0]"
    by (simp add: plot_riemann_Inr range_defs sheets_of_def theta_max_of_def upto.simps)
  have m: "surfaces ?f ! 0 \<in> set (surfaces ?f)"
    by (simp add: s)
  have v: "Hm (surfaces ?f ! 0) ! 1200 ! 0 = Finite (2400 * pi / 1599 + 0.03)"
    using pi_ge_two
    by (simp add: s Hm_nth in_sheet_nth sheet_idx_nth grid_th_nth np_where_def
        np_true_divide_def np_add_def np_remainder_def astype_int_def in_int64_def
        np_floor_divide_def lo_def hi_def gap_def)
  have p: "(0::int) < 2"
    by simp
  have q: "in_int64 2"
    by (simp add: in_int64_def)
  from zlim_upper [OF f q] have z: "zlim ?f = (0, 2 * pi + 0.1)"
    by (simp add: theta_max_of_def sheets_of_def)
  from zlim_upper [OF f q] p
  have b: "\<forall>p \<in> set (surfaces ?f). \<forall>i < 1600. \<forall>j < 160. \<forall>h.
               Hm p ! i ! j = Finite h \<longrightarrow>
                 0 \<le> h
                 \<and> h \<le> theta_max_of 2 None / real_of_int 2
                         + 0.03 * real_of_int (sheets_of 2 None - 1)
                 \<and> h \<le> snd (zlim ?f)"
    by blast
  from bspec [OF b m, rule_format, of 1200 0, OF _ _ v]
  have "0 \<le> 2400 * pi / 1599 + (0.03 :: real)
      \<and> 2400 * pi / 1599 + 0.03 \<le> 2 * pi + (0.03 :: real)
      \<and> 2400 * pi / 1599 + 0.03 \<le> 2 * pi + (0.1 :: real)"
    by (simp add: z theta_max_of_def sheets_of_def)
  with f q z m v show ?thesis by simp
qed

theorem zlim_upper_counterexample:
  "map_sum id (snd \<circ> zlim) (plot_riemann 2 None None []) = Inr (2 * pi + 0.1)
   \<and> theta_max_of 2 None / 2 + 0.03 * real_of_int (sheets_of 2 None - 1) = 2 * pi + 0.03
   \<and> 2 * pi + 0.1 \<noteq> 2 * pi + (0.03 :: real)"
  by (simp add: plot_riemann_Inr range_defs theta_max_of_def sheets_of_def)

text \<open>
  Claim C9. The main block runs the orders 2, 4, 8, 16 in this sequence and calls
  \<open>plot_riemann\<close> once for each: four figures are shown, whose window titles carry these
  orders, whose titles repeat the root glyph 1, 2, 3 and 4 times, and which hold 2, 4, 8
  and 16 patches.
\<close>

theorem driver_run:
  "map root_sign [2, 4, 8, 16]
     = [Inr (replicate 1 root_glyph), Inr (replicate 2 root_glyph),
        Inr (replicate 3 root_glyph), Inr (replicate 4 root_glyph)]
   \<and> map_sum id (map window_title) main
     = Inr [ascii ''Riemann Surface Visualizer (order=2)'',
            ascii ''Riemann Surface Visualizer (order=4)'',
            ascii ''Riemann Surface Visualizer (order=8)'',
            ascii ''Riemann Surface Visualizer (order=16)'']
   \<and> map_sum id (map title) main
     = Inr [ascii ''Riemann surface of '' @ replicate 1 root_glyph @ ascii ''z (2 sheets)'',
            ascii ''Riemann surface of '' @ replicate 2 root_glyph @ ascii ''z (4 sheets)'',
            ascii ''Riemann surface of '' @ replicate 3 root_glyph @ ascii ''z (8 sheets)'',
            ascii ''Riemann surface of '' @ replicate 4 root_glyph @ ascii ''z (16 sheets)'']
   \<and> map_sum id (map (\<lambda>f. count_list (title f) root_glyph)) main = Inr [1, 2, 3, 4]
   \<and> map_sum id (map (\<lambda>f. length (surfaces f))) main = Inr [2, 4, 8, 16]"
proof -
  have a: "map root_sign [2, 4, 8, 16]
     = [Inr (replicate 1 root_glyph), Inr (replicate 2 root_glyph),
        Inr (replicate 3 root_glyph), Inr (replicate 4 root_glyph)]"
    by (simp add: root_sign_vals numeral_eq_Suc)
  have b: "map_sum id (map window_title) main
     = Inr [ascii ''Riemann Surface Visualizer (order=2)'',
            ascii ''Riemann Surface Visualizer (order=4)'',
            ascii ''Riemann Surface Visualizer (order=8)'',
            ascii ''Riemann Surface Visualizer (order=16)'']"
    by (simp add: main_shown shown_fields in_int64_def str_int_vals ascii_def)
  have c: "map_sum id (map title) main
     = Inr [ascii ''Riemann surface of '' @ replicate 1 root_glyph @ ascii ''z (2 sheets)'',
            ascii ''Riemann surface of '' @ replicate 2 root_glyph @ ascii ''z (4 sheets)'',
            ascii ''Riemann surface of '' @ replicate 3 root_glyph @ ascii ''z (8 sheets)'',
            ascii ''Riemann surface of '' @ replicate 4 root_glyph @ ascii ''z (16 sheets)'']"
    by (simp add: main_shown shown_fields in_int64_def ttl_of_vals numeral_eq_Suc)
  have d: "map_sum id (map (\<lambda>f. count_list (title f) root_glyph)) main = Inr [1, 2, 3, 4]"
    by (simp add: main_shown shown_fields in_int64_def ttl_of_vals ascii_def root_glyph_def)
  have e: "map_sum id (map (\<lambda>f. length (surfaces f))) main = Inr [2, 4, 8, 16]"
    by (simp add: main_shown shown_fields in_int64_def)
  from a b c d e show ?thesis by (intro conjI)
qed

text \<open>
  Claim C10. A mesh cell whose angle is at least \<open>2\<pi> * sheets\<close> is NaN in the three arrays
  of every patch that the call draws, although its sheet index wraps around.
\<close>

theorem beyond_last_sheet_excluded:
  assumes "plot_riemann order tmo sho t = Inr fig" and "p \<in> set (surfaces fig)"
    and "i < 1600" and "j < 160"
    and "2 * pi * real_of_int (sheets_of order sho) \<le> grid_th (theta_max_of order tmo) ! i"
  shows "Xm p ! i ! j = NaN \<and> Ym p ! i ! j = NaN \<and> Hm p ! i ! j = NaN"
proof -
  from assms(1,2) obtain s
    where s: "s < sheets_of order sho"
      and p: "p = draw_sheet order (theta_max_of order tmo) (sheets_of order sho) s"
    by (rule patch_cases)
  from s have "s + 1 \<le> sheets_of order sho" by simp
  then have "real_of_int (s + 1) \<le> real_of_int (sheets_of order sho)" by linarith
  then have "2 * pi * real_of_int (s + 1) \<le> 2 * pi * real_of_int (sheets_of order sho)"
    by (intro mult_left_mono) simp_all
  moreover have "0 < gap" by (simp add: gap_def)
  ultimately have "hi s < grid_th (theta_max_of order tmo) ! i"
    using assms(5) unfolding hi_def by linarith
  then have "\<not> in_sheet (sheets_of order sho) (theta_max_of order tmo) s ! i ! j"
    using assms(3,4) by (simp add: in_sheet_nth)
  with assms(3,4) show ?thesis
    unfolding p by (rule masked_out)
qed

theorem beyond_last_sheet_excluded_witness:
  "\<not> isl (plot_riemann 2 None (Some 1) [])
   \<and> 2 * pi * real_of_int (sheets_of 2 (Some 1)) < theta_max_of 2 None
   \<and> 2 * pi * real_of_int (sheets_of 2 (Some 1)) \<le> grid_th (theta_max_of 2 None) ! 1200
   \<and> sheet_idx 1 (theta_max_of 2 None) ! 1200 ! 0 = 0
   \<and> Hm (surfaces (projr (plot_riemann 2 None (Some 1) [])) ! 0) ! 1200 ! 0 = NaN"
proof -
  let ?fig = "projr (plot_riemann 2 None (Some 1) [])"
  have f: "plot_riemann 2 None (Some 1) [] = Inr ?fig"
    by (simp add: plot_riemann_Inr range_defs sheets_of_def)
  have g: "2 * pi * real_of_int (sheets_of 2 (Some 1)) \<le> grid_th (theta_max_of 2 None) ! 1200"
    by (simp add: grid_th_nth theta_max_of_def sheets_of_def)
  have m: "surfaces ?fig ! 0 \<in> set (surfaces ?fig)"
    by (simp add: plot_riemann_Inr range_defs sheets_of_def)
  have k: "sheet_idx 1 (theta_max_of 2 None) ! 1200 ! 0 = 0"
    by (simp add: sheet_idx_nth np_remainder_def)
  have l: "2 * pi * real_of_int (sheets_of 2 (Some 1)) < theta_max_of 2 None"
    by (simp add: theta_max_of_def sheets_of_def)
  have r: "\<not> isl (plot_riemann 2 None (Some 1) [])"
    by (simp add: plot_riemann_Inr range_defs sheets_of_def)
  from beyond_last_sheet_excluded [OF f m _ _ g, of 0] g k l r
  show ?thesis by simp
qed

end
